theory Spec2Isabelle
  imports Main "HOL-Library.AList" "HOL-Library.Multiset" "HOL-Library.Word"
begin

section \<open>Go library functions used by the two output plugins\<close>

text \<open>
  A Go \<^verbatim>\<open>error\<close> is \<open>None\<close> for \<^verbatim>\<open>nil\<close> and \<open>Some msg\<close> for an error whose
  \<^verbatim>\<open>Error()\<close> text is \<open>msg\<close>. Byte slices and Go strings are \<open>string\<close>
  (lists of bytes). The line feed is \<open>CHR 0x0A\<close> and the tab is \<open>CHR 0x09\<close>.
\<close>

type_synonym err = "string option"

fun hasPrefix :: "string \<Rightarrow> string \<Rightarrow> bool" where
  "hasPrefix s [] = True"
| "hasPrefix [] (c # cs) = False"
| "hasPrefix (x # xs) (c # cs) = (x = c \<and> hasPrefix xs cs)"

text \<open>\<^verbatim>\<open>strings.Contains(s, substr)\<close>: some suffix of \<open>s\<close> starts with \<open>substr\<close>.\<close>

fun strings_Contains :: "string \<Rightarrow> string \<Rightarrow> bool" where
  "strings_Contains [] sub = (sub = [])"
| "strings_Contains (x # xs) sub = (hasPrefix (x # xs) sub \<or> strings_Contains xs sub)"

text \<open>
  \<^verbatim>\<open>bytes.Split(s, sep)\<close> for a separator of one byte, the only kind the plugins
  use: all the pieces between separators, so an input without a separator
  (the empty one too) gives one piece.
\<close>

fun bytes_Split :: "string \<Rightarrow> char \<Rightarrow> string list" where
  "bytes_Split [] sep = [[]]"
| "bytes_Split (c # cs) sep =
     (if c = sep then [] # bytes_Split cs sep
      else (case bytes_Split cs sep of
              [] \<Rightarrow> [[c]]
            | x # xs \<Rightarrow> (c # x) # xs))"

section \<open>The backend clients\<close>

text \<open>
  The SDK clients (\<^verbatim>\<open>pipeline.PipelineAPI\<close>, \<^verbatim>\<open>tsdb.TsdbAPI\<close>) are external. A call
  is a value of \<open>call\<close>; a client is a function from the call and the state of
  the backend \<open>'w\<close> to a reply and the new state of the backend. A reply is the
  error together with the schema entries (read by \<^verbatim>\<open>GetRepo\<close> only). The handle
  of an adapter is an option: \<open>None\<close> is the \<^verbatim>\<open>nil\<close> interface left by an adapter
  that was not connected, and a method call on it is a run-time panic.
\<close>

record RepoSchemaEntry =
  Key :: string
  ValueType :: string
  Required :: bool

record ExportTsdbSpec =
  DestRepoName :: string
  SeriesName :: string
  Timestamp :: string
  ExportTags :: "(string \<times> string) list"
  ExportFields :: "(string \<times> string) list"

datatype call =
    PostPointsFromBytes string string
  | PostDataFromBytes string string
  | GetRepo string
  | CreateRepo string string "RepoSchemaEntry list"
  | UpdateRepo string "RepoSchemaEntry list"
  | TsdbCreateRepo string string
  | CreateSeries string string string
  | CreateExport string string string string ExportTsdbSpec
  | UpdateExport string string ExportTsdbSpec

type_synonym reply = "err \<times> RepoSchemaEntry list"

type_synonym 'w backend = "call \<Rightarrow> 'w \<Rightarrow> reply \<times> 'w"

text \<open>The state of a run: the state of the backend and the calls issued so far.\<close>

type_synonym 'w st = "'w \<times> call list"

datatype 'a outcome = Panic | Done 'a

definition invoke :: "'w backend option \<Rightarrow> call \<Rightarrow> 'w st \<Rightarrow> (reply \<times> 'w st) outcome" where
  "invoke cl c s =
     (case cl of
        None \<Rightarrow> Panic
      | Some api \<Rightarrow> (case api c (fst s) of (r, w') \<Rightarrow> Done (r, (w', snd s @ [c]))))"

section \<open>The PandoraTSDB output\<close>

text \<open>
  The fields of \<^verbatim>\<open>PandoraTSDB\<close> that \<^verbatim>\<open>Write\<close> reads. (\<open>tsdb_Repo\<close> and \<open>tsdb_client\<close>
  are the fields \<^verbatim>\<open>Repo\<close> and \<^verbatim>\<open>client\<close>; the Pipeline record below has fields of
  the same names.)
\<close>

record 'w PandoraTSDB =
  tsdb_Repo :: string
  RetentionPolicy :: string
  AutoCreateSeries :: bool
  tsdb_client :: "'w backend option"

definition getSeries :: "string \<Rightarrow> string list" where
  "getSeries points =
     concat (map (\<lambda>line.
        if length line = 0 then []
        else (let ss = bytes_Split line (CHR '','') in
              if length ss > 1 then [hd ss] else []))
       (bytes_Split points (CHR 0x0A)))"

text \<open>
  \<^verbatim>\<open>createSeries\<close>: one \<^verbatim>\<open>CreateSeries\<close> call per extracted name; the error of the
  last call is the result (\<^verbatim>\<open>nil\<close> when there is no name).
\<close>

fun createSeries_loop ::
  "string \<Rightarrow> string \<Rightarrow> string list \<Rightarrow> 'w backend option \<Rightarrow> err \<Rightarrow> 'w st \<Rightarrow> (err \<times> 'w st) outcome" where
  "createSeries_loop repo retention [] cl e s = Done (e, s)"
| "createSeries_loop repo retention (x # xs) cl e s =
     (case invoke cl (CreateSeries repo x retention) s of
        Panic \<Rightarrow> Panic
      | Done (r, s') \<Rightarrow> createSeries_loop repo retention xs cl (fst r) s')"

definition createSeries ::
  "string \<Rightarrow> string \<Rightarrow> string \<Rightarrow> 'w backend option \<Rightarrow> 'w st \<Rightarrow> (err \<times> 'w st) outcome" where
  "createSeries repo retention points cl s =
     createSeries_loop repo retention (getSeries points) cl None s"

definition write_sentinel :: string where
  "write_sentinel = ''Could not write to any PandoraTSDB server in cluster''"

text \<open>
  \<^verbatim>\<open>PandoraTSDB.Write\<close>. The metric reader is external: \<open>p\<close> is the buffer after
  \<^verbatim>\<open>r.Read(p)\<close> and \<open>(n, rerr)\<close> is what the read returned. Slicing \<^verbatim>\<open>p[:n]\<close> beyond
  the buffer is a panic.
\<close>

definition tsdb_Write ::
  "'w PandoraTSDB \<Rightarrow> string \<Rightarrow> nat \<times> err \<Rightarrow> 'w st \<Rightarrow> (err \<times> 'w st) outcome" where
  "tsdb_Write i p rd s =
     (case rd of (n, rerr) \<Rightarrow>
        if rerr \<noteq> None then Done (rerr, s)
        else if n > length p then Panic
        else (case invoke (tsdb_client i) (PostPointsFromBytes (tsdb_Repo i) (take n p)) s of
                Panic \<Rightarrow> Panic
              | Done (r, s1) \<Rightarrow>
                  (case fst r of
                     Some e \<Rightarrow>
                       if strings_Contains e ''field type conflict'' then Done (None, s1)
                       else if strings_Contains e ''E7101'' \<and> AutoCreateSeries i then
                         (case createSeries (tsdb_Repo i) (RetentionPolicy i) (take n p) (tsdb_client i) s1 of
                            Panic \<Rightarrow> Panic
                          | Done (_, s2) \<Rightarrow> Done (Some write_sentinel, s2))
                       else Done (Some write_sentinel, s1)
                   | None \<Rightarrow> Done (None, s1))))"

text \<open>The error a finished \<^verbatim>\<open>Write\<close> returned, and the calls a run issued.\<close>

fun returned :: "(err \<times> 'w st) outcome \<Rightarrow> err option" where
  "returned Panic = None"
| "returned (Done (e, s)) = Some e"

fun calls :: "(err \<times> 'w st) outcome \<Rightarrow> call list" where
  "calls Panic = []"
| "calls (Done (e, s)) = snd s"

section \<open>The Pipeline output\<close>

subsection \<open>Points and their serialisation\<close>

text \<open>
  A parsed point (\<^verbatim>\<open>tsdb.Point\<close>): \<^verbatim>\<open>Name()\<close>, \<^verbatim>\<open>Tags()\<close> (a slice of key and value),
  \<^verbatim>\<open>Fields()\<close> (a Go map, here the list of its entries in the order the iteration
  visits them) and \<^verbatim>\<open>UnixNano()\<close>. A field value is an \<^verbatim>\<open>int64\<close>, a \<^verbatim>\<open>float64\<close> (its
  64 bits), a string or a bool. The variable \<^verbatim>\<open>fields\<close> of the source is written
  \<open>flds\<close> below, since every record declares a constant of that name.
\<close>

datatype field_value = IntV int | FloatV "64 word" | StringV string | BoolV bool

record point =
  Name :: string
  Tags :: "(string \<times> string) list"
  Fields :: "(string \<times> field_value) list"
  UnixNano :: int

definition digit :: "nat \<Rightarrow> char" where
  "digit d = ''0123456789'' ! (d mod 10)"

function show_nat :: "nat \<Rightarrow> string" where
  "show_nat n = (if n < 10 then [digit n] else show_nat (n div 10) @ [digit (n mod 10)])"
  by pat_completeness auto
termination
  by (relation "measure (\<lambda>n. n)") auto

declare show_nat.simps [simp del]

text \<open>The verb \<^verbatim>\<open>%d\<close> of \<^verbatim>\<open>fmt\<close> on an integer.\<close>

definition show_int :: "int \<Rightarrow> string" where
  "show_int i = (if i < 0 then CHR ''-'' # show_nat (nat (- i)) else show_nat (nat i))"

text \<open>
  The verb \<^verbatim>\<open>%v\<close> on a field value. How \<^verbatim>\<open>fmt\<close> prints a \<^verbatim>\<open>float64\<close> is the
  parameter \<open>ff\<close>.
\<close>

fun fmt_v :: "(64 word \<Rightarrow> string) \<Rightarrow> field_value \<Rightarrow> string" where
  "fmt_v ff (IntV n) = show_int n"
| "fmt_v ff (FloatV x) = ff x"
| "fmt_v ff (StringV s) = s"
| "fmt_v ff (BoolV b) = (if b then ''true'' else ''false'')"

definition convertTag :: "string \<Rightarrow> (string \<times> string) list \<Rightarrow> string" where
  "convertTag repoName tags =
     concat (map (\<lambda>val. repoName @ ''_'' @ fst val @ ''='' @ snd val @ [CHR 0x09]) tags)"

definition convertField ::
  "(64 word \<Rightarrow> string) \<Rightarrow> string \<Rightarrow> (string \<times> field_value) list \<Rightarrow> string" where
  "convertField ff repoName flds =
     concat (map (\<lambda>kv. repoName @ ''_'' @ fst kv @ ''='' @ fmt_v ff (snd kv) @ [CHR 0x09]) flds)"

text \<open>
  The map \<^verbatim>\<open>points\<close> from timestamp to the points that carry it, as the list of its
  entries, a new key at the end. Reading a missing key of a Go map gives the
  empty slice.
\<close>

definition lookup_points :: "(int \<times> point list) list \<Rightarrow> int \<Rightarrow> point list" where
  "lookup_points m ts = (case map_of m ts of None \<Rightarrow> [] | Some ps \<Rightarrow> ps)"

fun group_points :: "point list \<Rightarrow> (int \<times> point list) list \<Rightarrow> (int \<times> point list) list" where
  "group_points [] m = m"
| "group_points (pt # pts) m =
     (let timestamp = UnixNano pt;
          m1 = (if map_of m timestamp = None then AList.update timestamp [] m else m)
      in group_points pts (AList.update timestamp (lookup_points m1 timestamp @ [pt]) m1))"

text \<open>
  The loop that builds \<^verbatim>\<open>data\<close>, over the entries of the map in the order \<open>gs\<close>;
  \<open>encode_point\<close> is what its inner loop appends for one point.
  Go leaves the iteration order of a map open: any permutation of the entries
  is a possible \<open>gs\<close>.
\<close>

definition encode_point :: "(64 word \<Rightarrow> string) \<Rightarrow> point \<Rightarrow> string" where
  "encode_point ff pt = convertTag (Name pt) (Tags pt) @ convertField ff (Name pt) (Fields pt)"

definition encode_groups ::
  "(64 word \<Rightarrow> string) \<Rightarrow> (int \<times> point list) list \<Rightarrow> string" where
  "encode_groups ff gs =
     concat (map (\<lambda>g.
        concat (map (encode_point ff) (snd g)) @ ''timestamp='' @ show_int (fst g) @ [CHR 0x0A]) gs)"

text \<open>The number of lines of \<^verbatim>\<open>data\<close> that end in a line feed.\<close>

definition count_lines :: "string \<Rightarrow> nat" where
  "count_lines data = length (filter (\<lambda>c. c = CHR 0x0A) data)"

subsection \<open>Schema extraction\<close>

fun getFieldType :: "field_value \<Rightarrow> string" where
  "getFieldType (IntV n) = ''long''"
| "getFieldType (FloatV x) = ''float''"
| "getFieldType (StringV s) = ''string''"
| "getFieldType (BoolV b) = ''boolean''"

text \<open>
  \<^verbatim>\<open>extractSchemaFromPoints\<close>: the tag keys as a slice (with repeats), the field
  types as a map (an association list; a later point overwrites the type).
\<close>

fun extract_loop ::
  "point list \<Rightarrow> string list \<times> (string \<times> string) list \<Rightarrow> string list \<times> (string \<times> string) list" where
  "extract_loop [] acc = acc"
| "extract_loop (pt # pts) acc =
     extract_loop pts
       (fst acc @ map (\<lambda>val. Name pt @ ''_'' @ fst val) (Tags pt),
        fold (\<lambda>kv flds. AList.update (Name pt @ ''_'' @ fst kv) (getFieldType (snd kv)) flds)
          (Fields pt) (snd acc))"

definition extractSchemaFromPoints :: "point list \<Rightarrow> string list \<times> (string \<times> string) list" where
  "extractSchemaFromPoints points = extract_loop points ([], [])"

subsection \<open>Export reconciliation\<close>

record 'w Pipeline =
  Repo :: string
  AutoCreateRepo :: bool
  client :: "'w backend option"
  tsdbClient :: "'w backend option"

definition export_spec :: "string \<Rightarrow> string \<Rightarrow> string list \<Rightarrow> string list \<Rightarrow> ExportTsdbSpec" where
  "export_spec repo seriesName tags flds =
     \<lparr>DestRepoName = repo, SeriesName = seriesName, Timestamp = ''#timestamp'',
      ExportTags = map (\<lambda>tag. (tag, ''#'' @ seriesName @ ''_'' @ tag)) tags,
      ExportFields = map (\<lambda>filed. (filed, ''#'' @ seriesName @ ''_'' @ filed)) flds\<rparr>"

text \<open>
  \<^verbatim>\<open>createOrUpdateExport\<close>. The sets \<^verbatim>\<open>tags\<close> and \<^verbatim>\<open>fields\<close> are lists without
  repeats. The error of \<^verbatim>\<open>CreateSeries\<close> is printed or dropped and then overwritten
  by the result of \<^verbatim>\<open>CreateExport\<close>.
\<close>

definition createOrUpdateExport ::
  "'w Pipeline \<Rightarrow> string \<Rightarrow> string list \<Rightarrow> string list \<Rightarrow> 'w st \<Rightarrow> (err \<times> 'w st) outcome" where
  "createOrUpdateExport i seriesName tags flds s =
     (case invoke (tsdbClient i) (CreateSeries (Repo i) seriesName ''7d'') s of
        Panic \<Rightarrow> Panic
      | Done (r0, s0) \<Rightarrow>
          (let spec = export_spec (Repo i) seriesName tags flds;
               exportName = ''export_'' @ seriesName @ ''_toTSDB''
           in case invoke (client i) (CreateExport (Repo i) exportName ''tsdb'' ''oldest'' spec) s0 of
                Panic \<Rightarrow> Panic
              | Done (r1, s1) \<Rightarrow>
                  (case fst r1 of
                     None \<Rightarrow> Done (None, s1)
                   | Some e \<Rightarrow>
                       if strings_Contains e ''E18301'' then
                         (case invoke (client i) (UpdateExport (Repo i) exportName spec) s1 of
                            Panic \<Rightarrow> Panic
                          | Done (r2, s2) \<Rightarrow> Done (fst r2, s2))
                       else Done (Some e, s1))))"

definition set_add :: "string \<Rightarrow> string list \<Rightarrow> string list" where
  "set_add x xs = (if x \<in> set xs then xs else xs @ [x])"

text \<open>
  The map \<^verbatim>\<open>measurements\<close> of \<^verbatim>\<open>updateExport\<close>: per series name the set of tag keys
  and the set of field keys, a new series at the end.
\<close>

fun measurements_loop ::
  "point list \<Rightarrow> (string \<times> string list \<times> string list) list \<Rightarrow> (string \<times> string list \<times> string list) list" where
  "measurements_loop [] m = m"
| "measurements_loop (pt # pts) m =
     (let ptName = Name pt;
          m1 = (if map_of m ptName = None then AList.update ptName ([], []) m else m);
          cur = (case map_of m1 ptName of None \<Rightarrow> ([], []) | Some v \<Rightarrow> v);
          tags' = fold (\<lambda>tag acc. set_add (fst tag) acc) (Tags pt) (fst cur);
          fields' = fold (\<lambda>field acc. set_add (fst field) acc) (Fields pt) (snd cur)
      in measurements_loop pts (AList.update ptName (tags', fields') m1))"

fun exports_loop ::
  "'w Pipeline \<Rightarrow> (string \<times> string list \<times> string list) list \<Rightarrow> err \<Rightarrow> 'w st \<Rightarrow> (err \<times> 'w st) outcome" where
  "exports_loop i [] e s = Done (e, s)"
| "exports_loop i (m # ms) e s =
     (case createOrUpdateExport i (fst m) (fst (snd m)) (snd (snd m)) s of
        Panic \<Rightarrow> Panic
      | Done (e', s') \<Rightarrow> exports_loop i ms e' s')"

text \<open>
  \<^verbatim>\<open>updateExport\<close>: one \<^verbatim>\<open>createOrUpdateExport\<close> per series, here in first-seen
  order; the result is the error of the last one.
\<close>

definition updateExport :: "'w Pipeline \<Rightarrow> point list \<Rightarrow> 'w st \<Rightarrow> (err \<times> 'w st) outcome" where
  "updateExport i points s = exports_loop i (measurements_loop points []) None s"

subsection \<open>Schema reconciliation\<close>

text \<open>
  The working map \<^verbatim>\<open>schemas\<close> of \<^verbatim>\<open>updateSchema\<close> after its five loops: seeded
  from the fetched schema, the tags added as \<^verbatim>\<open>string\<close>, the fields with their
  type, \<^verbatim>\<open>timestamp\<close> as \<^verbatim>\<open>long\<close>, each only when the key is missing, then the
  fetched keys deleted.
\<close>

definition add_missing :: "string \<Rightarrow> string \<Rightarrow> (string \<times> string) list \<Rightarrow> (string \<times> string) list" where
  "add_missing k v schemas = (if map_of schemas k = None then AList.update k v schemas else schemas)"

definition schemas_of ::
  "RepoSchemaEntry list \<Rightarrow> string list \<Rightarrow> (string \<times> string) list \<Rightarrow> (string \<times> string) list" where
  "schemas_of schema tags flds =
     (let s0 = fold (\<lambda>e m. AList.update (Key e) (ValueType e) m) schema [];
          s1 = fold (\<lambda>tag m. add_missing tag ''string'' m) tags s0;
          s2 = fold (\<lambda>fv m. add_missing (fst fv) (snd fv) m) flds s1;
          s3 = add_missing ''timestamp'' ''long'' s2
      in fold (\<lambda>e m. AList.delete (Key e) m) schema s3)"

definition target_of ::
  "RepoSchemaEntry list \<Rightarrow> string list \<Rightarrow> (string \<times> string) list \<Rightarrow> RepoSchemaEntry list" where
  "target_of schema tags flds =
     map (\<lambda>kv. \<lparr>Key = fst kv, ValueType = snd kv, Required = False\<rparr>) (schemas_of schema tags flds)"

text \<open>
  \<^verbatim>\<open>updateSchema\<close>. The output of \<^verbatim>\<open>GetRepo\<close> is read also when the call failed, as
  the source does. In the branch that creates the repo, the error built from a
  failed \<^verbatim>\<open>tsdbClient.CreateRepo\<close> is assigned to \<^verbatim>\<open>err\<close> and then overwritten by
  the result of \<^verbatim>\<open>updateExport\<close>.
\<close>

definition updateSchema :: "'w Pipeline \<Rightarrow> point list \<Rightarrow> 'w st \<Rightarrow> (err \<times> 'w st) outcome" where
  "updateSchema i points s =
     (case extractSchemaFromPoints points of (tags, flds) \<Rightarrow>
        (case invoke (client i) (GetRepo (Repo i)) s of
           Panic \<Rightarrow> Panic
         | Done (r, s0) \<Rightarrow>
             (let schema = snd r;
                  createRepo = (case fst r of None \<Rightarrow> False | Some e \<Rightarrow> strings_Contains e ''E18102'');
                  target = target_of schema tags flds
              in if createRepo then
                   (case invoke (client i) (CreateRepo (Repo i) ''nb'' (schema @ target)) s0 of
                      Panic \<Rightarrow> Panic
                    | Done (r1, s1) \<Rightarrow>
                        (case fst r1 of
                           Some e \<Rightarrow> Done (Some e, s1)
                         | None \<Rightarrow>
                             (case invoke (tsdbClient i) (TsdbCreateRepo (Repo i) ''nb'') s1 of
                                Panic \<Rightarrow> Panic
                              | Done (r2, s2) \<Rightarrow>
                                  (let err = (case fst r2 of
                                                None \<Rightarrow> None
                                              | Some e \<Rightarrow> Some (''create tsdb repo '' @ Repo i @ '' fail, '' @ e))
                                   in (case updateExport i points s2 of
                                         Panic \<Rightarrow> Panic
                                       | Done (err', s3) \<Rightarrow> Done (err', s3))))))
                 else
                   (case invoke (client i) (UpdateRepo (Repo i) (schema @ target)) s0 of
                      Panic \<Rightarrow> Panic
                    | Done (r1, s1) \<Rightarrow> updateExport i points s1))))"

subsection \<open>Write\<close>

text \<open>Go's \<^verbatim>\<open>%\<close> on integers: the remainder has the sign of the dividend.\<close>

definition go_rem :: "int \<Rightarrow> int \<Rightarrow> int" where
  "go_rem a b = sgn a * (\<bar>a\<bar> mod \<bar>b\<bar>)"

text \<open>
  \<^verbatim>\<open>Pipeline.Write\<close>. The metric reader, the parser and the clock are external:
  \<open>lens\<close> are the \<^verbatim>\<open>Len()\<close> of the metrics, \<open>(n, rerr)\<close> is what \<^verbatim>\<open>r.Read(p)\<close>
  returned, \<open>parsed\<close> is what \<^verbatim>\<open>tsdb.ParsePoints(p)\<close> returned (\<open>Inl\<close> its error)
  and \<open>now\<close> is \<^verbatim>\<open>time.Now().Unix()\<close>. After a successful parse \<^verbatim>\<open>err\<close> is \<^verbatim>\<open>nil\<close>,
  and it stays so unless \<^verbatim>\<open>updateSchema\<close> is run.
\<close>

definition Write ::
  "(64 word \<Rightarrow> string) \<Rightarrow> 'w Pipeline \<Rightarrow> int \<Rightarrow> nat list \<Rightarrow> nat \<times> err \<Rightarrow> string + point list \<Rightarrow> 'w st
     \<Rightarrow> (err \<times> 'w st) outcome" where
  "Write ff i now lens rd parsed s =
     (let bufsize = sum_list lens in
      case rd of (n, rerr) \<Rightarrow>
        if rerr \<noteq> None \<and> n \<noteq> bufsize then Done (rerr, s)
        else (case parsed of
                Inl perr \<Rightarrow> Done (Some perr, s)
              | Inr pts \<Rightarrow>
                  (let data = encode_groups ff (group_points pts []) in
                   case invoke (client i) (PostDataFromBytes (Repo i) data) s of
                     Panic \<Rightarrow> Panic
                   | Done (r, s1) \<Rightarrow>
                       (case fst r of
                          Some e \<Rightarrow>
                            if strings_Contains e ''E18102'' then
                              (if AutoCreateRepo i then updateSchema i pts s1 else Done (None, s1))
                            else if strings_Contains e ''E18111'' then
                              (if AutoCreateRepo i then updateSchema i pts s1 else Done (None, s1))
                            else Done (None, s1)
                        | None \<Rightarrow>
                            if go_rem now 60 < 11 then
                              (case updateExport i pts s1 of
                                 Panic \<Rightarrow> Panic
                               | Done (_, s2) \<Rightarrow> Done (None, s2))
                            else Done (None, s1)))))"

section \<open>Backends for the worked examples\<close>

text \<open>A backend that answers every call from a script of replies, then with success.\<close>

definition scripted :: "reply list backend" where
  "scripted c w = (case w of [] \<Rightarrow> ((None, []), []) | r # rs \<Rightarrow> (r, rs))"

text \<open>
  A backend that keeps the exports by name: creating an export that exists
  fails with the code E18301, an update replaces the stored specification,
  every other call succeeds.
\<close>

fun export_store :: "(string \<times> ExportTsdbSpec) list backend" where
  "export_store (CreateExport repo exportName ty whence spec) w =
     (if map_of w exportName = None then ((None, []), AList.update exportName spec w)
      else ((Some ''E18301: export already exists'', []), w))"
| "export_store (UpdateExport repo exportName spec) w = ((None, []), AList.update exportName spec w)"
| "export_store c w = ((None, []), w)"

text \<open>A printer of floats for the examples, none of which has a float.\<close>

definition print_float :: "64 word \<Rightarrow> string" where
  "print_float x = ''0''"

definition cpu_point :: point where
  "cpu_point = \<lparr>Name = ''cpu'', Tags = [(''host'', ''h1'')], Fields = [(''value'', IntV 123)], UnixNano = 1\<rparr>"

definition host_point :: point where
  "host_point = \<lparr>Name = ''cpu'', Tags = [(''host'', ''h1'')], Fields = [(''host'', IntV 1)], UnixNano = 1\<rparr>"

definition mem_point :: point where
  "mem_point = \<lparr>Name = ''mem'', Tags = [], Fields = [(''free'', IntV 7)], UnixNano = 2\<rparr>"

definition monitor :: "'w backend \<Rightarrow> 'w Pipeline" where
  "monitor api = \<lparr>Repo = ''monitor'', AutoCreateRepo = True, client = Some api, tsdbClient = Some api\<rparr>"

definition example_points :: string where
  "example_points =
     ''cpu,host=h1 value=123'' @ [CHR 0x0A] @ ''gpu,region=g1 value=123'' @ [CHR 0x0A]
     @ ''test,host=h1 value=123'' @ [CHR 0x0A] @ ''mem,host=h1 value=123''"

section \<open>Properties of the PandoraTSDB output\<close>

lemma bytes_Split_nonempty: "bytes_Split s sep \<noteq> []"
  by (induction s) (auto split: list.splits)

lemma hd_bytes_Split: "hd (bytes_Split s sep) = takeWhile (\<lambda>c. c \<noteq> sep) s"
  by (induction s) (auto split: list.splits simp: bytes_Split_nonempty)

lemma length_bytes_Split: "length (bytes_Split s sep) = Suc (length (filter (\<lambda>c. c = sep) s))"
  by (induction s) (auto split: list.splits simp: bytes_Split_nonempty)

lemma bytes_Split_many: "(Suc 0 < length (bytes_Split s sep)) = (sep \<in> set s)"
  by (simp add: length_bytes_Split filter_empty_conv)

lemma createSeries_loop_Done:
  "\<exists>e' w'. createSeries_loop repo ret xs (Some api) e (w, tr)
      = Done (e', (w', tr @ map (\<lambda>x. CreateSeries repo x ret) xs))"
proof (induction xs arbitrary: e w tr)
  case Nil
  then show ?case by simp
next
  case (Cons x xs)
  obtain r w1 where r: "api (CreateSeries repo x ret) w = (r, w1)"
    by (cases "api (CreateSeries repo x ret) w")
  from Cons [of "fst r" w1 "tr @ [CreateSeries repo x ret]"] r show ?case
    by (simp add: invoke_def)
qed

text \<open>
  Claim C3, as the code has it: \<open>getSeries\<close> returns, in the order of the input
  lines, the text before the first comma of every line that contains a comma,
  one entry per such line, so a series name that stands on several lines is
  returned once for each of them; for the four lines of the example it returns
  exactly cpu, gpu, test, mem.
\<close>

theorem getSeries_lines:
  "getSeries points =
     map (takeWhile (\<lambda>c. c \<noteq> CHR '',''))
       (filter (\<lambda>line. CHR '','' \<in> set line) (bytes_Split points (CHR 0x0A)))
   \<and> getSeries example_points = [''cpu'', ''gpu'', ''test'', ''mem'']"
proof -
  have "concat (map (\<lambda>line. if length line = 0 then []
        else (let ss = bytes_Split line (CHR '','') in
              if length ss > 1 then [hd ss] else [])) ls)
     = map (takeWhile (\<lambda>c. c \<noteq> CHR '','')) (filter (\<lambda>line. CHR '','' \<in> set line) ls)" for ls
    by (induction ls) (auto simp: Let_def bytes_Split_many hd_bytes_Split)
  then have "getSeries points =
     map (takeWhile (\<lambda>c. c \<noteq> CHR '',''))
       (filter (\<lambda>line. CHR '','' \<in> set line) (bytes_Split points (CHR 0x0A)))"
    by (simp add: getSeries_def)
  moreover have "getSeries example_points = [''cpu'', ''gpu'', ''test'', ''mem'']"
    by (simp add: getSeries_def example_points_def)
  ultimately show ?thesis by simp
qed

text \<open>Two lines of the series cpu: the name is returned twice, duplicates are not removed.\<close>

theorem getSeries_keeps_duplicates:
  "getSeries (''cpu,host=h1 value=1'' @ [CHR 0x0A] @ ''cpu,host=h2 value=2'') = [''cpu'', ''cpu'']
   \<and> \<not> distinct (getSeries (''cpu,host=h1 value=1'' @ [CHR 0x0A] @ ''cpu,host=h2 value=2''))"
  by (simp add: getSeries_def)

text \<open>
  Claim C5: when the backend answers the write of the PandoraTSDB output with an
  error whose message contains "field type conflict", \<open>Write\<close> returns nil and
  the write is the only call of the invocation: no second write attempt.
\<close>

theorem tsdb_Write_field_type_conflict:
  assumes "tsdb_client i = Some api" and "n \<le> length p"
    and "api (PostPointsFromBytes (tsdb_Repo i) (take n p)) w = ((Some e, sch), w1)"
    and "strings_Contains e ''field type conflict''"
  shows "tsdb_Write i p (n, None) (w, tr)
           = Done (None, (w1, tr @ [PostPointsFromBytes (tsdb_Repo i) (take n p)]))"
  using assms by (simp add: tsdb_Write_def invoke_def)

theorem tsdb_Write_field_type_conflict_witness:
  "tsdb_Write \<lparr>tsdb_Repo = ''test'', RetentionPolicy = ''3d'', AutoCreateSeries = True,
               tsdb_client = Some scripted\<rparr>
     example_points (length example_points, None)
     ([(Some ''field type conflict: input field value on measurement test is type integer'', [])], [])
   = Done (None, ([], [PostPointsFromBytes ''test'' example_points]))"
proof -
  have "tsdb_Write \<lparr>tsdb_Repo = ''test'', RetentionPolicy = ''3d'', AutoCreateSeries = True,
               tsdb_client = Some scripted\<rparr>
     example_points (length example_points, None)
     ([(Some ''field type conflict: input field value on measurement test is type integer'', [])], [])
   = Done (None, ([], [] @ [PostPointsFromBytes (tsdb_Repo \<lparr>tsdb_Repo = ''test'', RetentionPolicy = ''3d'',
               AutoCreateSeries = True, tsdb_client = Some scripted\<rparr>)
               (take (length example_points) example_points)]))"
  proof (rule tsdb_Write_field_type_conflict [where api = scripted and sch = "[]"])
    show "strings_Contains ''field type conflict: input field value on measurement test is type integer''
            ''field type conflict''"
      by code_simp
  qed (simp_all add: scripted_def)
  then show ?thesis by simp
qed

text \<open>
  Claim C10: when the backend answers the write of the PandoraTSDB output with an
  error whose message does not contain "field type conflict", \<open>Write\<close> returns
  the fixed error "Could not write to any PandoraTSDB server in cluster", not
  the error of the backend. This holds also when the message contains E7101
  and \<open>auto_create_series\<close> is set: then one \<open>CreateSeries\<close> call per extracted
  name follows the write, and whatever those calls answer, the fixed error is
  returned.
\<close>

theorem tsdb_Write_sentinel:
  assumes "tsdb_client i = Some api" and "n \<le> length p"
    and "api (PostPointsFromBytes (tsdb_Repo i) (take n p)) w = ((Some e, sch), w1)"
    and "\<not> strings_Contains e ''field type conflict''"
  shows "returned (tsdb_Write i p (n, None) (w, tr)) = Some (Some write_sentinel)
    \<and> calls (tsdb_Write i p (n, None) (w, tr))
        = tr @ [PostPointsFromBytes (tsdb_Repo i) (take n p)]
          @ (if strings_Contains e ''E7101'' \<and> AutoCreateSeries i
             then map (\<lambda>x. CreateSeries (tsdb_Repo i) x (RetentionPolicy i)) (getSeries (take n p))
             else [])"
proof (cases "strings_Contains e ''E7101'' \<and> AutoCreateSeries i")
  case True
  obtain e' w' where "createSeries_loop (tsdb_Repo i) (RetentionPolicy i) (getSeries (take n p)) (Some api) None
      (w1, tr @ [PostPointsFromBytes (tsdb_Repo i) (take n p)])
     = Done (e', (w', (tr @ [PostPointsFromBytes (tsdb_Repo i) (take n p)])
           @ map (\<lambda>x. CreateSeries (tsdb_Repo i) x (RetentionPolicy i)) (getSeries (take n p))))"
    using createSeries_loop_Done [of "tsdb_Repo i" "RetentionPolicy i" "getSeries (take n p)" api None w1
        "tr @ [PostPointsFromBytes (tsdb_Repo i) (take n p)]"]
    by auto
  with True assms show ?thesis
    by (simp add: tsdb_Write_def invoke_def createSeries_def)
next
  case False
  with assms show ?thesis
    by (auto simp add: tsdb_Write_def invoke_def)
qed

theorem tsdb_Write_sentinel_witness:
  "returned (tsdb_Write \<lparr>tsdb_Repo = ''test'', RetentionPolicy = ''3d'', AutoCreateSeries = True,
               tsdb_client = Some scripted\<rparr>
     example_points (length example_points, None)
     ([(Some ''E7101: series not found'', []), (Some ''create failed'', [])], []))
   = Some (Some ''Could not write to any PandoraTSDB server in cluster'')
   \<and> calls (tsdb_Write \<lparr>tsdb_Repo = ''test'', RetentionPolicy = ''3d'', AutoCreateSeries = True,
               tsdb_client = Some scripted\<rparr>
     example_points (length example_points, None)
     ([(Some ''E7101: series not found'', []), (Some ''create failed'', [])], []))
   = [PostPointsFromBytes ''test'' example_points, CreateSeries ''test'' ''cpu'' ''3d'',
      CreateSeries ''test'' ''gpu'' ''3d'', CreateSeries ''test'' ''test'' ''3d'',
      CreateSeries ''test'' ''mem'' ''3d'']"
proof -
  have g: "getSeries example_points = [''cpu'', ''gpu'', ''test'', ''mem'']"
    by (simp add: getSeries_def example_points_def)
  have c: "strings_Contains ''E7101: series not found'' ''E7101''"
    and nc: "\<not> strings_Contains ''E7101: series not found'' ''field type conflict''"
    by code_simp+
  show ?thesis
    using tsdb_Write_sentinel [where api = scripted and sch = "[]" and e = "''E7101: series not found''"
        and i = "\<lparr>tsdb_Repo = ''test'', RetentionPolicy = ''3d'', AutoCreateSeries = True,
               tsdb_client = Some scripted\<rparr>" and p = example_points and n = "length example_points"
        and w = "[(Some ''E7101: series not found'', []), (Some ''create failed'', [])]"
        and ?w1.0 = "[(Some ''create failed'', [])]" and tr = "[]"] nc
    by (simp add: scripted_def g c write_sentinel_def)
qed

section \<open>Properties of the Pipeline output\<close>

subsection \<open>Writing on an adapter that is not connected\<close>

text \<open>
  Claim C7, as the code has it: on an adapter whose client handle was never
  constructed, \<open>Write\<close> returns an error without faulting only when reading the
  batch fails (for the Pipeline output also when parsing it fails); once the
  batch is read and parsed, the call of the backend write on the nil handle is
  a run-time panic, in both outputs.
\<close>

theorem Write_unconnected:
  "(client i = None \<longrightarrow>
      Write ff i now lens (n, rerr) parsed s =
        (if rerr \<noteq> None \<and> n \<noteq> sum_list lens then Done (rerr, s)
         else (case parsed of Inl perr \<Rightarrow> Done (Some perr, s) | Inr pts \<Rightarrow> Panic)))
   \<and> (tsdb_client j = None \<longrightarrow>
      tsdb_Write j p (m, rerr') s' = (if rerr' \<noteq> None then Done (rerr', s') else Panic))"
  by (simp add: Write_def tsdb_Write_def invoke_def split: sum.splits)

text \<open>
  A batch of one point that is read and parsed: \<open>Write\<close> panics on the nil
  handle instead of returning an error.
\<close>

theorem Write_unconnected_panics:
  "Write print_float \<lparr>Repo = ''monitor'', AutoCreateRepo = False, client = None, tsdbClient = None\<rparr>
     0 [19] (19, None)
     (Inr [\<lparr>Name = ''cpu'', Tags = [(''host'', ''h1'')], Fields = [(''value'', IntV 123)], UnixNano = 1\<rparr>])
     ((), []) = Panic
   \<and> tsdb_Write \<lparr>tsdb_Repo = ''telegraf'', RetentionPolicy = ''3d'', AutoCreateSeries = False,
        tsdb_client = None\<rparr> ''cpu,host=h1 value=123'' (21, None) ((), []) = Panic"
  by (simp add: Write_def tsdb_Write_def invoke_def)

theorem Write_unconnected_witness:
  "Write print_float \<lparr>Repo = ''monitor'', AutoCreateRepo = False, client = None, tsdbClient = None\<rparr>
     0 [19] (0, Some ''EOF'')
     (Inr [\<lparr>Name = ''cpu'', Tags = [(''host'', ''h1'')], Fields = [(''value'', IntV 123)], UnixNano = 1\<rparr>])
     ((), []) = Done (Some ''EOF'', ((), []))
   \<and> tsdb_Write \<lparr>tsdb_Repo = ''telegraf'', RetentionPolicy = ''3d'', AutoCreateSeries = False,
        tsdb_client = None\<rparr> ''cpu,host=h1 value=123'' (21, None) ((), []) = Panic"
  using Write_unconnected [of "\<lparr>Repo = ''monitor'', AutoCreateRepo = False, client = None, tsdbClient = None\<rparr>"
      print_float 0 "[19]" 0 "Some ''EOF''"
      "Inr [\<lparr>Name = ''cpu'', Tags = [(''host'', ''h1'')], Fields = [(''value'', IntV 123)], UnixNano = 1\<rparr>]"
      "((), [])"
      "\<lparr>tsdb_Repo = ''telegraf'', RetentionPolicy = ''3d'', AutoCreateSeries = False, tsdb_client = None\<rparr>"
      "''cpu,host=h1 value=123''" 21 None "((), [])"]
  by simp

subsection \<open>A missing backend object without auto-create\<close>

text \<open>
  Claim C4, as the code has it: in the Pipeline output a write error that
  contains E18102 with \<open>auto_create_repo\<close> false makes \<open>Write\<close> return nil,
  with no call after the write. In the PandoraTSDB output a write error that
  contains E7101 with \<open>auto_create_series\<close> false is not swallowed: \<open>Write\<close>
  returns the fixed error "Could not write to any PandoraTSDB server in cluster"
  (nil only if the message also contains "field type conflict"), again with no
  call after the write.
\<close>

theorem Write_missing_no_auto_create:
  "(client i = Some api \<and> \<not> (rerr \<noteq> None \<and> n \<noteq> sum_list lens)
      \<and> api (PostDataFromBytes (Repo i) (encode_groups ff (group_points pts []))) w = ((Some e, x), w1)
      \<and> strings_Contains e ''E18102'' \<and> \<not> AutoCreateRepo i
    \<longrightarrow> Write ff i now lens (n, rerr) (Inr pts) (w, tr)
          = Done (None, (w1, tr @ [PostDataFromBytes (Repo i) (encode_groups ff (group_points pts []))])))
   \<and> (tsdb_client j = Some api' \<and> m \<le> length p
      \<and> api' (PostPointsFromBytes (tsdb_Repo j) (take m p)) w' = ((Some e', x'), w1')
      \<and> strings_Contains e' ''E7101'' \<and> \<not> AutoCreateSeries j
    \<longrightarrow> tsdb_Write j p (m, None) (w', tr')
          = Done (if strings_Contains e' ''field type conflict'' then None else Some write_sentinel,
                  (w1', tr' @ [PostPointsFromBytes (tsdb_Repo j) (take m p)])))"
  by (auto simp add: Write_def tsdb_Write_def invoke_def Let_def)

text \<open>
  The PandoraTSDB output, a missing series (E7101), \<open>auto_create_series\<close> false:
  \<open>Write\<close> returns an error, not nil.
\<close>

theorem tsdb_Write_missing_series_error:
  "returned (tsdb_Write \<lparr>tsdb_Repo = ''telegraf'', RetentionPolicy = ''3d'', AutoCreateSeries = False,
        tsdb_client = Some scripted\<rparr> ''cpu,host=h1 value=123'' (21, None)
        ([(Some ''E7101: series not found'', [])], []))
     = Some (Some ''Could not write to any PandoraTSDB server in cluster'')"
proof -
  have c: "strings_Contains ''E7101: series not found'' ''E7101''"
    and nc: "\<not> strings_Contains ''E7101: series not found'' ''field type conflict''"
    by code_simp+
  show ?thesis
    by (simp add: tsdb_Write_def invoke_def scripted_def c nc write_sentinel_def)
qed

theorem Write_missing_no_auto_create_witness:
  "Write print_float \<lparr>Repo = ''monitor'', AutoCreateRepo = False, client = Some scripted, tsdbClient = Some scripted\<rparr>
     0 [19] (19, None)
     (Inr [\<lparr>Name = ''cpu'', Tags = [(''host'', ''h1'')], Fields = [(''value'', IntV 123)], UnixNano = 1\<rparr>])
     ([(Some ''E18102: repo not found'', [])], [])
     = Done (None, ([], [PostDataFromBytes ''monitor''
          (''cpu_host=h1'' @ [CHR 0x09] @ ''cpu_value=123'' @ [CHR 0x09] @ ''timestamp=1'' @ [CHR 0x0A])]))
   \<and> tsdb_Write \<lparr>tsdb_Repo = ''telegraf'', RetentionPolicy = ''3d'', AutoCreateSeries = False,
        tsdb_client = Some scripted\<rparr> ''cpu,host=h1 value=123'' (21, None)
        ([(Some ''E7101: series not found'', [])], [])
     = Done (Some ''Could not write to any PandoraTSDB server in cluster'',
          ([], [PostPointsFromBytes ''telegraf'' ''cpu,host=h1 value=123'']))"
proof -
  have c: "strings_Contains ''E7101: series not found'' ''E7101''"
    and nc: "\<not> strings_Contains ''E7101: series not found'' ''field type conflict''"
    and d: "strings_Contains ''E18102: repo not found'' ''E18102''"
    by code_simp+
  have enc: "encode_groups print_float (group_points
       [\<lparr>Name = ''cpu'', Tags = [(''host'', ''h1'')], Fields = [(''value'', IntV 123)], UnixNano = 1\<rparr>] [])
     = ''cpu_host=h1'' @ [CHR 0x09] @ ''cpu_value=123'' @ [CHR 0x09] @ ''timestamp=1'' @ [CHR 0x0A]"
    by code_simp
  show ?thesis
    unfolding enc [symmetric]
    using Write_missing_no_auto_create [of
      "\<lparr>Repo = ''monitor'', AutoCreateRepo = False, client = Some scripted, tsdbClient = Some scripted\<rparr>"
      scripted None 19 "[19]" print_float
      "[\<lparr>Name = ''cpu'', Tags = [(''host'', ''h1'')], Fields = [(''value'', IntV 123)], UnixNano = 1\<rparr>]"
      "[(Some ''E18102: repo not found'', [])]" "''E18102: repo not found''" "[]" "[]" 0 "[]"
      "\<lparr>tsdb_Repo = ''telegraf'', RetentionPolicy = ''3d'', AutoCreateSeries = False, tsdb_client = Some scripted\<rparr>"
      scripted 21 "''cpu,host=h1 value=123''" "[(Some ''E7101: series not found'', [])]"
      "''E7101: series not found''" "[]" "[]" "[]"]
    by (simp add: c nc d scripted_def write_sentinel_def)
qed

text \<open>
  For the record, the Pipeline output on a write error that contains "field type
  conflict" and neither E18102 nor E18111: \<open>Write\<close> returns nil after the one
  write, as it does on every write error that carries neither code.
\<close>

lemma Write_other_error:
  assumes "client i = Some api" and "\<not> (rerr \<noteq> None \<and> n \<noteq> sum_list lens)"
    and "api (PostDataFromBytes (Repo i) (encode_groups ff (group_points pts []))) w = ((Some e, x), w1)"
    and "\<not> strings_Contains e ''E18102''" and "\<not> strings_Contains e ''E18111''"
  shows "Write ff i now lens (n, rerr) (Inr pts) (w, tr)
           = Done (None, (w1, tr @ [PostDataFromBytes (Repo i) (encode_groups ff (group_points pts []))]))"
  using assms by (auto simp add: Write_def invoke_def Let_def)

subsection \<open>Export reconciliation\<close>

lemma createOrUpdateExport_Done:
  assumes "client i = Some api" and "tsdbClient i = Some tapi"
  shows "\<exists>e' s'. createOrUpdateExport i series tags flds s = Done (e', s')"
proof -
  obtain r0 wa where a: "tapi (CreateSeries (Repo i) series ''7d'') (fst s) = (r0, wa)"
    by (cases "tapi (CreateSeries (Repo i) series ''7d'') (fst s)")
  obtain r1 wb where b: "api (CreateExport (Repo i) (''export_'' @ series @ ''_toTSDB'') ''tsdb'' ''oldest''
       (export_spec (Repo i) series tags flds)) wa = (r1, wb)"
    by (cases "api (CreateExport (Repo i) (''export_'' @ series @ ''_toTSDB'') ''tsdb'' ''oldest''
       (export_spec (Repo i) series tags flds)) wa")
  obtain r2 wc where c: "api (UpdateExport (Repo i) (''export_'' @ series @ ''_toTSDB'')
       (export_spec (Repo i) series tags flds)) wb = (r2, wc)"
    by (cases "api (UpdateExport (Repo i) (''export_'' @ series @ ''_toTSDB'')
       (export_spec (Repo i) series tags flds)) wb")
  from assms a b c show ?thesis
    by (simp add: createOrUpdateExport_def invoke_def Let_def split: option.splits)
qed

lemma exports_loop_Done:
  assumes "client i = Some api" and "tsdbClient i = Some tapi"
  shows "\<exists>e' s'. exports_loop i ms e s = Done (e', s')"
proof (induction ms arbitrary: e s)
  case Nil
  then show ?case by simp
next
  case (Cons m ms)
  obtain e1 s1 where "createOrUpdateExport i (fst m) (fst (snd m)) (snd (snd m)) s = Done (e1, s1)"
    using createOrUpdateExport_Done [OF assms] by blast
  with Cons [of e1 s1] show ?case by simp
qed

lemma updateExport_Done:
  assumes "client i = Some api" and "tsdbClient i = Some tapi"
  shows "\<exists>e' s'. updateExport i pts s = Done (e', s')"
  unfolding updateExport_def using exports_loop_Done [OF assms] by blast

text \<open>
  Claim C6: \<open>createOrUpdateExport\<close> called twice with the same series, tags and
  fields. The first call creates the export (its \<open>CreateExport\<close> succeeds, no
  update is issued). The second call sends the same \<open>CreateExport\<close>, is answered
  with an error that contains E18301 (already exists), and issues exactly one
  \<open>UpdateExport\<close> for the same export name with the identical specification,
  built from the series, tags and fields alone, not merged with anything
  stored: the specification of the update equals that of the fresh create.
\<close>

theorem createOrUpdateExport_idempotent:
  assumes "client i = Some api" and "tsdbClient i = Some tapi"
    and "exportName = ''export_'' @ series @ ''_toTSDB''"
    and "spec = \<lparr>DestRepoName = Repo i, SeriesName = series, Timestamp = ''#timestamp'',
                  ExportTags = map (\<lambda>t. (t, ''#'' @ series @ ''_'' @ t)) tags,
                  ExportFields = map (\<lambda>f. (f, ''#'' @ series @ ''_'' @ f)) flds\<rparr>"
    and "tapi (CreateSeries (Repo i) series ''7d'') w = (r0, wa)"
    and "api (CreateExport (Repo i) exportName ''tsdb'' ''oldest'' spec) wa = ((None, x1), wb)"
    and "tapi (CreateSeries (Repo i) series ''7d'') wb = (r0', wc)"
    and "api (CreateExport (Repo i) exportName ''tsdb'' ''oldest'' spec) wc = ((Some e, x2), wd)"
    and "strings_Contains e ''E18301''"
    and "api (UpdateExport (Repo i) exportName spec) wd = ((uerr, x3), we)"
  shows "createOrUpdateExport i series tags flds (w, tr)
           = Done (None, (wb, tr @ [CreateSeries (Repo i) series ''7d'',
                                    CreateExport (Repo i) exportName ''tsdb'' ''oldest'' spec]))
       \<and> createOrUpdateExport i series tags flds
             (wb, tr @ [CreateSeries (Repo i) series ''7d'',
                        CreateExport (Repo i) exportName ''tsdb'' ''oldest'' spec])
           = Done (uerr, (we, tr @ [CreateSeries (Repo i) series ''7d'',
                                    CreateExport (Repo i) exportName ''tsdb'' ''oldest'' spec,
                                    CreateSeries (Repo i) series ''7d'',
                                    CreateExport (Repo i) exportName ''tsdb'' ''oldest'' spec,
                                    UpdateExport (Repo i) exportName spec]))"
  using assms by (simp add: createOrUpdateExport_def invoke_def Let_def export_spec_def)

theorem createOrUpdateExport_idempotent_witness:
  "createOrUpdateExport (monitor export_store) ''cpu'' [''host''] [''value''] ([], [])
     = Done (None,
        ([(''export_cpu_toTSDB'', export_spec ''monitor'' ''cpu'' [''host''] [''value''])],
         [CreateSeries ''monitor'' ''cpu'' ''7d'',
          CreateExport ''monitor'' ''export_cpu_toTSDB'' ''tsdb'' ''oldest''
            (export_spec ''monitor'' ''cpu'' [''host''] [''value''])]))
   \<and> createOrUpdateExport (monitor export_store) ''cpu'' [''host''] [''value'']
        ([(''export_cpu_toTSDB'', export_spec ''monitor'' ''cpu'' [''host''] [''value''])],
         [CreateSeries ''monitor'' ''cpu'' ''7d'',
          CreateExport ''monitor'' ''export_cpu_toTSDB'' ''tsdb'' ''oldest''
            (export_spec ''monitor'' ''cpu'' [''host''] [''value''])])
     = Done (None,
        ([(''export_cpu_toTSDB'', export_spec ''monitor'' ''cpu'' [''host''] [''value''])],
         [CreateSeries ''monitor'' ''cpu'' ''7d'',
          CreateExport ''monitor'' ''export_cpu_toTSDB'' ''tsdb'' ''oldest''
            (export_spec ''monitor'' ''cpu'' [''host''] [''value'']),
          CreateSeries ''monitor'' ''cpu'' ''7d'',
          CreateExport ''monitor'' ''export_cpu_toTSDB'' ''tsdb'' ''oldest''
            (export_spec ''monitor'' ''cpu'' [''host''] [''value'']),
          UpdateExport ''monitor'' ''export_cpu_toTSDB''
            (export_spec ''monitor'' ''cpu'' [''host''] [''value''])]))"
proof -
  have c: "strings_Contains ''E18301: export already exists'' ''E18301''" by code_simp
  show ?thesis
    using createOrUpdateExport_idempotent [where i = "monitor export_store" and api = export_store
        and tapi = export_store and series = "''cpu''" and tags = "[''host'']" and flds = "[''value'']"
        and exportName = "''export_cpu_toTSDB''"
        and spec = "export_spec ''monitor'' ''cpu'' [''host''] [''value'']"
        and w = "[]" and ?r0.0 = "(None, [])" and wa = "[]" and ?x1.0 = "[]"
        and wb = "[(''export_cpu_toTSDB'', export_spec ''monitor'' ''cpu'' [''host''] [''value''])]"
        and r0' = "(None, [])"
        and wc = "[(''export_cpu_toTSDB'', export_spec ''monitor'' ''cpu'' [''host''] [''value''])]"
        and e = "''E18301: export already exists''" and ?x2.0 = "[]"
        and wd = "[(''export_cpu_toTSDB'', export_spec ''monitor'' ''cpu'' [''host''] [''value''])]"
        and uerr = None and ?x3.0 = "[]"
        and we = "[(''export_cpu_toTSDB'', export_spec ''monitor'' ''cpu'' [''host''] [''value''])]"
        and tr = "[]"] c
    by (simp add: monitor_def export_spec_def)
qed

text \<open>
  Claim C8: after a successful backend write on a connected Pipeline adapter,
  \<open>Write\<close> runs \<open>updateExport\<close> over the points of the batch exactly when
  \<^verbatim>\<open>time.Now().Unix() % 60\<close> is less than 11, and returns nil in either case,
  whatever \<open>updateExport\<close> returned: when the remainder is below 11 the state
  and the calls are those \<open>updateExport\<close> left, otherwise the write is the only
  call.
\<close>

theorem Write_opportunistic_refresh:
  assumes "client i = Some api" and "tsdbClient i = Some tapi"
    and "\<not> (rerr \<noteq> None \<and> n \<noteq> sum_list lens)"
    and "api (PostDataFromBytes (Repo i) (encode_groups ff (group_points pts []))) w = ((None, x), w1)"
  shows "\<exists>e' s2.
      updateExport i pts (w1, tr @ [PostDataFromBytes (Repo i) (encode_groups ff (group_points pts []))])
        = Done (e', s2)
      \<and> Write ff i now lens (n, rerr) (Inr pts) (w, tr)
        = Done (None, if go_rem now 60 < 11 then s2
                      else (w1, tr @ [PostDataFromBytes (Repo i) (encode_groups ff (group_points pts []))]))"
proof -
  obtain e' s2 where u:
    "updateExport i pts (w1, tr @ [PostDataFromBytes (Repo i) (encode_groups ff (group_points pts []))])
       = Done (e', s2)"
    using updateExport_Done [OF assms(1,2)] by blast
  with assms show ?thesis
    by (auto simp add: Write_def invoke_def Let_def)
qed

theorem Write_opportunistic_refresh_witness:
  "Write print_float (monitor export_store) 1509548405 [19] (19, None) (Inr [cpu_point]) ([], [])
     = Done (None,
        ([(''export_cpu_toTSDB'', export_spec ''monitor'' ''cpu'' [''host''] [''value''])],
         [PostDataFromBytes ''monitor''
            (''cpu_host=h1'' @ [CHR 0x09] @ ''cpu_value=123'' @ [CHR 0x09] @ ''timestamp=1'' @ [CHR 0x0A]),
          CreateSeries ''monitor'' ''cpu'' ''7d'',
          CreateExport ''monitor'' ''export_cpu_toTSDB'' ''tsdb'' ''oldest''
            (export_spec ''monitor'' ''cpu'' [''host''] [''value''])]))
   \<and> Write print_float (monitor export_store) 1509548430 [19] (19, None) (Inr [cpu_point]) ([], [])
     = Done (None,
        ([], [PostDataFromBytes ''monitor''
            (''cpu_host=h1'' @ [CHR 0x09] @ ''cpu_value=123'' @ [CHR 0x09] @ ''timestamp=1'' @ [CHR 0x0A])]))"
proof -
  have enc: "encode_groups print_float (group_points [cpu_point] [])
     = ''cpu_host=h1'' @ [CHR 0x09] @ ''cpu_value=123'' @ [CHR 0x09] @ ''timestamp=1'' @ [CHR 0x0A]"
    by code_simp
  have u: "updateExport (monitor export_store) [cpu_point]
       ([], [PostDataFromBytes ''monitor'' (encode_groups print_float (group_points [cpu_point] []))])
     = Done (None,
        ([(''export_cpu_toTSDB'', export_spec ''monitor'' ''cpu'' [''host''] [''value''])],
         [PostDataFromBytes ''monitor'' (encode_groups print_float (group_points [cpu_point] [])),
          CreateSeries ''monitor'' ''cpu'' ''7d'',
          CreateExport ''monitor'' ''export_cpu_toTSDB'' ''tsdb'' ''oldest''
            (export_spec ''monitor'' ''cpu'' [''host''] [''value''])]))"
    unfolding enc by code_simp
  have r1: "go_rem 1509548405 60 < 11" and r2: "\<not> go_rem 1509548430 60 < 11"
    by (simp_all add: go_rem_def)
  have h: "client (monitor export_store) = Some export_store"
    "tsdbClient (monitor export_store) = Some export_store"
    "\<not> (None \<noteq> (None :: err) \<and> (19::nat) \<noteq> sum_list [19])"
    "export_store (PostDataFromBytes (Repo (monitor export_store))
        (encode_groups print_float (group_points [cpu_point] []))) [] = ((None, []), [])"
    by (simp_all add: monitor_def)
  have rp: "Repo (monitor export_store) = ''monitor''" by (simp add: monitor_def)
  from Write_opportunistic_refresh [OF h, where now = 1509548405 and tr = "[]"]
    Write_opportunistic_refresh [OF h, where now = 1509548430 and tr = "[]"]
  show ?thesis
    unfolding enc [symmetric] by (simp add: r1 r2 rp u del: group_points.simps)
qed

text \<open>
  Go's remainder is the usual one on a clock that is not before 1970.
\<close>

lemma go_rem_nonneg: "0 \<le> a \<Longrightarrow> go_rem a 60 = a mod 60"
  by (cases "a = 0") (simp_all add: go_rem_def)

subsection \<open>Schema reconciliation\<close>

lemma keys_seed:
  "fst ` set (fold (\<lambda>e m. AList.update (Key e) (ValueType e) m) schema m0)
     = fst ` set m0 \<union> Key ` set schema"
  by (induction schema arbitrary: m0) (auto simp: dom_update)

lemma distinct_seed:
  "distinct (map fst m0) \<Longrightarrow>
   distinct (map fst (fold (\<lambda>e m. AList.update (Key e) (ValueType e) m) schema m0))"
  by (induction schema arbitrary: m0) (auto simp: distinct_update)

lemma map_of_add_missing:
  "map_of (add_missing k v m) x
     = (case map_of m x of Some y \<Rightarrow> Some y | None \<Rightarrow> if x = k then Some v else None)"
  by (auto simp: add_missing_def update_conv' split: option.splits)

lemma distinct_add_missing:
  "distinct (map fst m) \<Longrightarrow> distinct (map fst (add_missing k v m))"
  by (simp add: add_missing_def distinct_update)

lemma map_of_add_tags:
  "map_of (fold (\<lambda>tag m. add_missing tag v m) tags m) x
     = (case map_of m x of Some y \<Rightarrow> Some y | None \<Rightarrow> if x \<in> set tags then Some v else None)"
  by (induction tags arbitrary: m) (auto simp: map_of_add_missing split: option.splits)

lemma distinct_add_tags:
  "distinct (map fst m) \<Longrightarrow> distinct (map fst (fold (\<lambda>tag m. add_missing tag v m) tags m))"
  by (induction tags arbitrary: m) (auto simp: distinct_add_missing)

lemma map_of_add_fields:
  "map_of (fold (\<lambda>fv m. add_missing (fst fv) (snd fv) m) flds m) x
     = (case map_of m x of Some y \<Rightarrow> Some y | None \<Rightarrow> map_of flds x)"
  by (induction flds arbitrary: m) (auto simp: map_of_add_missing split: option.splits)

lemma distinct_add_fields:
  "distinct (map fst m) \<Longrightarrow>
   distinct (map fst (fold (\<lambda>fv m. add_missing (fst fv) (snd fv) m) flds m))"
  by (induction flds arbitrary: m) (auto simp: distinct_add_missing)

lemma map_of_delete_keys:
  "map_of (fold (\<lambda>e m. AList.delete (Key e) m) schema m) x
     = (if x \<in> Key ` set schema then None else map_of m x)"
  by (induction schema arbitrary: m) (auto simp: delete_conv')

lemma distinct_delete_keys:
  "distinct (map fst m) \<Longrightarrow> distinct (map fst (fold (\<lambda>e m. AList.delete (Key e) m) schema m))"
  by (induction schema arbitrary: m) (auto simp: distinct_delete)

lemma map_of_schemas_of:
  "map_of (schemas_of schema tags flds) x
     = (if x \<in> Key ` set schema then None
        else if x \<in> set tags then Some ''string''
        else (case map_of flds x of
                Some t \<Rightarrow> Some t
              | None \<Rightarrow> if x = ''timestamp'' then Some ''long'' else None))"
proof (cases "x \<in> Key ` set schema")
  case True
  then show ?thesis by (simp add: schemas_of_def Let_def map_of_delete_keys)
next
  case False
  then have "map_of (fold (\<lambda>e m. AList.update (Key e) (ValueType e) m) schema []) x = None"
    by (simp add: map_of_eq_None_iff keys_seed)
  with False show ?thesis
    by (simp add: schemas_of_def Let_def map_of_delete_keys map_of_add_missing map_of_add_fields
        map_of_add_tags split: option.splits)
qed

lemma distinct_schemas_of: "distinct (map fst (schemas_of schema tags flds))"
  by (simp add: schemas_of_def Let_def distinct_delete_keys distinct_add_missing distinct_add_fields
      distinct_add_tags distinct_seed)

lemma target_of_iff:
  "(e \<in> set (target_of schema tags flds))
     = (Required e = False \<and> map_of (schemas_of schema tags flds) (Key e) = Some (ValueType e))"
proof -
  have "(e \<in> set (target_of schema tags flds))
      = (Required e = False \<and> (Key e, ValueType e) \<in> set (schemas_of schema tags flds))"
    by (cases e) (auto simp: target_of_def intro!: rev_image_eqI)
  then show ?thesis
    by (simp add: map_of_eq_Some_iff [OF distinct_schemas_of])
qed

lemma Key_target_of: "map Key (target_of schema tags flds) = map fst (schemas_of schema tags flds)"
  by (simp add: target_of_def comp_def)

lemma keys_fold_update:
  "fst ` set (fold (\<lambda>kv m. AList.update (f kv) (g kv) m) xs m0) = fst ` set m0 \<union> f ` set xs"
  by (induction xs arbitrary: m0) (auto simp: dom_update)

lemma extract_loop_keys:
  "set (fst (extract_loop pts acc)) \<union> fst ` set (snd (extract_loop pts acc))
     \<subseteq> set (fst acc) \<union> fst ` set (snd acc) \<union> {k. CHR ''_'' \<in> set k}"
proof (induction pts arbitrary: acc)
  case Nil
  then show ?case by auto
next
  case (Cons pt pts)
  have "set (fst (extract_loop (pt # pts) acc)) \<union> fst ` set (snd (extract_loop (pt # pts) acc))
      \<subseteq> (set (fst acc) \<union> (\<lambda>val. Name pt @ ''_'' @ fst val) ` set (Tags pt))
        \<union> (fst ` set (snd acc) \<union> (\<lambda>kv. Name pt @ ''_'' @ fst kv) ` set (Fields pt))
        \<union> {k. CHR ''_'' \<in> set k}"
    using Cons [of "(fst acc @ map (\<lambda>val. Name pt @ ''_'' @ fst val) (Tags pt),
        fold (\<lambda>kv flds. AList.update (Name pt @ ''_'' @ fst kv) (getFieldType (snd kv)) flds)
          (Fields pt) (snd acc))"]
    by (simp add: keys_fold_update)
  then show ?case by auto
qed

lemma timestamp_not_extracted:
  "''timestamp'' \<notin> set (fst (extractSchemaFromPoints pts))
   \<and> map_of (snd (extractSchemaFromPoints pts)) ''timestamp'' = None"
proof -
  have sub: "set (fst (extractSchemaFromPoints pts)) \<union> fst ` set (snd (extractSchemaFromPoints pts))
      \<subseteq> {k. CHR ''_'' \<in> set k}"
    using extract_loop_keys [of pts "([], [])"] by (simp add: extractSchemaFromPoints_def)
  have nt: "''timestamp'' \<notin> {k. CHR ''_'' \<in> set k}" by simp
  from sub nt have "''timestamp'' \<notin> set (fst (extractSchemaFromPoints pts))"
    and "''timestamp'' \<notin> fst ` set (snd (extractSchemaFromPoints pts))"
    by blast+
  then show ?thesis by (simp add: map_of_eq_None_iff)
qed

text \<open>
  Claim C1, as the code has it: when \<open>updateSchema\<close> updates the repo (the fetch
  did not fail with E18102), the payload of \<open>UpdateRepo\<close> is the fetched schema,
  unchanged, followed by a delta with one entry per key. Every entry of the
  delta has a key that the fetched schema lacks and is not required. The delta
  holds every extracted tag key that the fetched schema lacks, with the type
  "string"; every extracted field key that the fetched schema lacks and that is
  not also an extracted tag key, with its inferred type; and \<open>timestamp\<close> with
  the type "long" if the fetched schema lacks it; and it holds nothing else.
\<close>

theorem updateSchema_additive_delta:
  assumes "client i = Some api"
    and "api (GetRepo (Repo i)) w = ((gerr, schema), w0)"
    and "\<forall>e. gerr = Some e \<longrightarrow> \<not> strings_Contains e ''E18102''"
    and "tags = fst (extractSchemaFromPoints pts)" and "flds = snd (extractSchemaFromPoints pts)"
    and "target = target_of schema tags flds"
    and "api (UpdateRepo (Repo i) (schema @ target)) w0 = (r1, w1)"
  shows "updateSchema i pts (w, tr)
           = updateExport i pts (w1, tr @ [GetRepo (Repo i), UpdateRepo (Repo i) (schema @ target)])
    \<and> distinct (map Key target)
    \<and> (\<forall>e \<in> set target. Key e \<notin> Key ` set schema \<and> Required e = False
          \<and> (Key e \<in> set tags \<and> ValueType e = ''string''
             \<or> Key e \<notin> set tags \<and> map_of flds (Key e) = Some (ValueType e)
             \<or> Key e = ''timestamp'' \<and> ValueType e = ''long''))
    \<and> (\<forall>k \<in> set tags. k \<notin> Key ` set schema
          \<longrightarrow> \<lparr>Key = k, ValueType = ''string'', Required = False\<rparr> \<in> set target)
    \<and> (\<forall>k t. map_of flds k = Some t \<and> k \<notin> Key ` set schema \<and> k \<notin> set tags
          \<longrightarrow> \<lparr>Key = k, ValueType = t, Required = False\<rparr> \<in> set target)
    \<and> (''timestamp'' \<notin> Key ` set schema
          \<longrightarrow> \<lparr>Key = ''timestamp'', ValueType = ''long'', Required = False\<rparr> \<in> set target)"
proof -
  have run: "updateSchema i pts (w, tr)
           = updateExport i pts (w1, tr @ [GetRepo (Repo i), UpdateRepo (Repo i) (schema @ target)])"
    using assms
    by (cases "extractSchemaFromPoints pts"; cases gerr) (simp_all add: updateSchema_def invoke_def Let_def)
  have dist: "distinct (map Key target)"
    using assms(6) by (simp add: Key_target_of distinct_schemas_of)
  have only: "\<forall>e \<in> set target. Key e \<notin> Key ` set schema \<and> Required e = False
          \<and> (Key e \<in> set tags \<and> ValueType e = ''string''
             \<or> Key e \<notin> set tags \<and> map_of flds (Key e) = Some (ValueType e)
             \<or> Key e = ''timestamp'' \<and> ValueType e = ''long'')"
    using assms(6) by (auto simp: target_of_iff map_of_schemas_of split: if_splits option.splits)
  have tg: "\<forall>k \<in> set tags. k \<notin> Key ` set schema
          \<longrightarrow> \<lparr>Key = k, ValueType = ''string'', Required = False\<rparr> \<in> set target"
    using assms(6) by (simp add: target_of_iff map_of_schemas_of)
  have fl: "\<forall>k t. map_of flds k = Some t \<and> k \<notin> Key ` set schema \<and> k \<notin> set tags
          \<longrightarrow> \<lparr>Key = k, ValueType = t, Required = False\<rparr> \<in> set target"
    using assms(6) by (simp add: target_of_iff map_of_schemas_of)
  have ts: "''timestamp'' \<notin> Key ` set schema
          \<longrightarrow> \<lparr>Key = ''timestamp'', ValueType = ''long'', Required = False\<rparr> \<in> set target"
    using assms(4,5,6) timestamp_not_extracted [of pts]
    by (simp add: target_of_iff map_of_schemas_of)
  from run dist only tg fl ts show ?thesis by blast
qed

text \<open>
  A point whose tag and field share the key host: the field key cpu_host has the
  inferred type "long" and is absent from the (empty) fetched schema, but the
  delta carries it with the type "string".
\<close>

theorem updateSchema_tag_shadows_field:
  "map_of (snd (extractSchemaFromPoints [host_point])) ''cpu_host'' = Some ''long''
   \<and> take 2 (calls (updateSchema (monitor scripted) [host_point] ([], [])))
     = [GetRepo ''monitor'',
        UpdateRepo ''monitor''
          [\<lparr>Key = ''cpu_host'', ValueType = ''string'', Required = False\<rparr>,
           \<lparr>Key = ''timestamp'', ValueType = ''long'', Required = False\<rparr>]]"
  by code_simp

theorem updateSchema_additive_delta_witness:
  "updateSchema (monitor scripted) [cpu_point]
     ([(None, [\<lparr>Key = ''cpu_host'', ValueType = ''string'', Required = True\<rparr>])], [])
   = updateExport (monitor scripted) [cpu_point]
       ([], [GetRepo ''monitor'',
             UpdateRepo ''monitor''
               [\<lparr>Key = ''cpu_host'', ValueType = ''string'', Required = True\<rparr>,
                \<lparr>Key = ''cpu_value'', ValueType = ''long'', Required = False\<rparr>,
                \<lparr>Key = ''timestamp'', ValueType = ''long'', Required = False\<rparr>]])"
proof -
  have ex: "extractSchemaFromPoints [cpu_point] = ([''cpu_host''], [(''cpu_value'', ''long'')])"
    by code_simp
  have t: "target_of [\<lparr>Key = ''cpu_host'', ValueType = ''string'', Required = True\<rparr>]
             [''cpu_host''] [(''cpu_value'', ''long'')]
         = [\<lparr>Key = ''cpu_value'', ValueType = ''long'', Required = False\<rparr>,
            \<lparr>Key = ''timestamp'', ValueType = ''long'', Required = False\<rparr>]"
    by code_simp
  have "updateSchema (monitor scripted) [cpu_point]
     ([(None, [\<lparr>Key = ''cpu_host'', ValueType = ''string'', Required = True\<rparr>])], [])
   = updateExport (monitor scripted) [cpu_point]
       ([], [] @ [GetRepo (Repo (monitor scripted)),
             UpdateRepo (Repo (monitor scripted))
               ([\<lparr>Key = ''cpu_host'', ValueType = ''string'', Required = True\<rparr>]
                @ [\<lparr>Key = ''cpu_value'', ValueType = ''long'', Required = False\<rparr>,
                   \<lparr>Key = ''timestamp'', ValueType = ''long'', Required = False\<rparr>])])"
    by (rule updateSchema_additive_delta [where api = scripted and gerr = None
          and ?w0.0 = "[]" and tags = "[''cpu_host'']" and flds = "[(''cpu_value'', ''long'')]"
          and ?r1.0 = "(None, [])" and ?w1.0 = "[]", THEN conjunct1])
      (simp_all add: ex t monitor_def scripted_def)
  then show ?thesis by (simp add: monitor_def)
qed

text \<open>
  Claim C2, as the code has it: during repo bootstrap (the fetch failed with
  E18102) a failure to create the pipeline repo is returned as the error of
  \<open>updateSchema\<close> at once; no time-series repo is created and no export is
  reconciled after it.
\<close>

theorem updateSchema_create_repo_fails:
  assumes "client i = Some api"
    and "api (GetRepo (Repo i)) w = ((Some ge, schema), w0)"
    and "strings_Contains ge ''E18102''"
    and "payload = schema @ target_of schema (fst (extractSchemaFromPoints pts)) (snd (extractSchemaFromPoints pts))"
    and "api (CreateRepo (Repo i) ''nb'' payload) w0 = ((Some e, x), w1)"
  shows "updateSchema i pts (w, tr)
           = Done (Some e, (w1, tr @ [GetRepo (Repo i), CreateRepo (Repo i) ''nb'' payload]))"
  using assms by (cases "extractSchemaFromPoints pts") (simp add: updateSchema_def invoke_def Let_def)

text \<open>
  The creation of the pipeline repo fails: its error is returned.
\<close>

theorem updateSchema_returns_pipeline_repo_failure:
  "returned (updateSchema (monitor scripted) [cpu_point]
     ([(Some ''E18102: repo not found'', []), (Some ''E18000: internal error'', [])], []))
   = Some (Some ''E18000: internal error'')"
  by code_simp

theorem updateSchema_create_repo_fails_witness:
  "updateSchema (monitor scripted) [cpu_point]
     ([(Some ''E18102: repo not found'', []), (Some ''E18000: internal error'', [])], [])
   = Done (Some ''E18000: internal error'',
       ([], [GetRepo ''monitor'',
             CreateRepo ''monitor'' ''nb''
               [\<lparr>Key = ''cpu_host'', ValueType = ''string'', Required = False\<rparr>,
                \<lparr>Key = ''cpu_value'', ValueType = ''long'', Required = False\<rparr>,
                \<lparr>Key = ''timestamp'', ValueType = ''long'', Required = False\<rparr>]]))"
proof -
  have c: "strings_Contains ''E18102: repo not found'' ''E18102''" by code_simp
  have t: "target_of [] (fst (extractSchemaFromPoints [cpu_point])) (snd (extractSchemaFromPoints [cpu_point]))
         = [\<lparr>Key = ''cpu_host'', ValueType = ''string'', Required = False\<rparr>,
            \<lparr>Key = ''cpu_value'', ValueType = ''long'', Required = False\<rparr>,
            \<lparr>Key = ''timestamp'', ValueType = ''long'', Required = False\<rparr>]"
    by code_simp
  have "updateSchema (monitor scripted) [cpu_point]
     ([(Some ''E18102: repo not found'', []), (Some ''E18000: internal error'', [])], [])
   = Done (Some ''E18000: internal error'',
       ([], [] @ [GetRepo (Repo (monitor scripted)),
             CreateRepo (Repo (monitor scripted)) ''nb''
               [\<lparr>Key = ''cpu_host'', ValueType = ''string'', Required = False\<rparr>,
                \<lparr>Key = ''cpu_value'', ValueType = ''long'', Required = False\<rparr>,
                \<lparr>Key = ''timestamp'', ValueType = ''long'', Required = False\<rparr>]]))"
    by (rule updateSchema_create_repo_fails [where api = scripted and ge = "''E18102: repo not found''"
          and schema = "[]" and ?w0.0 = "[(Some ''E18000: internal error'', [])]" and x = "[]"])
      (simp_all add: monitor_def scripted_def c t)
  then show ?thesis by (simp add: monitor_def)
qed

text \<open>
  For the record, a failure to create the time-series repo: the error built
  from it is overwritten by the result of \<open>updateExport\<close>, here nil.
\<close>

lemma updateSchema_drops_tsdb_repo_failure:
  "returned (updateSchema (monitor scripted) [cpu_point]
     ([(Some ''E18102: repo not found'', []), (None, []), (Some ''E7000: internal error'', [])], []))
   = Some None"
  by code_simp

subsection \<open>Serialisation of a batch\<close>

lemma digit_not_newline: "digit d \<noteq> CHR 0x0A"
proof -
  have "k < 10 \<Longrightarrow> k = 0 \<or> k = 1 \<or> k = 2 \<or> k = 3 \<or> k = 4 \<or> k = 5 \<or> k = 6 \<or> k = 7 \<or> k = 8 \<or> k = 9"
    for k :: nat by arith
  then have "d mod 10 = 0 \<or> d mod 10 = 1 \<or> d mod 10 = 2 \<or> d mod 10 = 3 \<or> d mod 10 = 4
      \<or> d mod 10 = 5 \<or> d mod 10 = 6 \<or> d mod 10 = 7 \<or> d mod 10 = 8 \<or> d mod 10 = 9"
    by simp
  then show ?thesis unfolding digit_def by (elim disjE) simp_all
qed

lemma show_nat_no_newline: "CHR 0x0A \<notin> set (show_nat n)"
proof (induction n rule: show_nat.induct)
  case (1 n)
  show ?case
  proof (cases "n < 10")
    case True
    then have "show_nat n = [digit n]" by (subst show_nat.simps) simp
    then show ?thesis using digit_not_newline [of n] by simp
  next
    case False
    then have "show_nat n = show_nat (n div 10) @ [digit (n mod 10)]"
      by (subst show_nat.simps) simp
    with False 1 digit_not_newline [of "n mod 10"] show ?thesis by simp
  qed
qed

lemma show_int_no_newline: "CHR 0x0A \<notin> set (show_int i)"
  by (simp add: show_int_def show_nat_no_newline)

lemma count_lines_append: "count_lines (a @ b) = count_lines a + count_lines b"
  by (simp add: count_lines_def)

lemma count_lines_none: "CHR 0x0A \<notin> set s \<Longrightarrow> count_lines s = 0"
  by (induction s) (auto simp: count_lines_def)

lemma bytes_Split_line: "sep \<notin> set a \<Longrightarrow> bytes_Split (a @ sep # rest) sep = a # bytes_Split rest sep"
  by (induction a) auto

lemma encode_groups_lines:
  assumes "\<forall>g \<in> set gs. \<forall>pt \<in> set (snd g). CHR 0x0A \<notin> set (encode_point ff pt)"
  shows "bytes_Split (encode_groups ff gs) (CHR 0x0A)
           = map (\<lambda>g. concat (map (encode_point ff) (snd g)) @ ''timestamp='' @ show_int (fst g)) gs @ [[]]
       \<and> count_lines (encode_groups ff gs) = length gs"
  using assms
proof (induction gs)
  case Nil
  then show ?case by (simp add: encode_groups_def count_lines_def)
next
  case (Cons g gs)
  define line where "line = concat (map (encode_point ff) (snd g)) @ ''timestamp='' @ show_int (fst g)"
  have nl: "CHR 0x0A \<notin> set line"
    using Cons.prems by (auto simp: line_def show_int_no_newline)
  have e: "encode_groups ff (g # gs) = line @ CHR 0x0A # encode_groups ff gs"
    by (simp add: encode_groups_def line_def)
  from Cons have ih: "bytes_Split (encode_groups ff gs) (CHR 0x0A)
       = map (\<lambda>g. concat (map (encode_point ff) (snd g)) @ ''timestamp='' @ show_int (fst g)) gs @ [[]]"
    "count_lines (encode_groups ff gs) = length gs"
    by simp_all
  have "count_lines (encode_groups ff (g # gs)) = Suc (length gs)"
    using nl ih(2) by (simp add: e count_lines_append count_lines_none) (simp add: count_lines_def)
  moreover have "bytes_Split (encode_groups ff (g # gs)) (CHR 0x0A)
       = line # map (\<lambda>g. concat (map (encode_point ff) (snd g)) @ ''timestamp='' @ show_int (fst g)) gs @ [[]]"
    using nl ih(1) by (simp add: e bytes_Split_line)
  ultimately show ?case by (simp add: line_def)
qed

lemma keys_group_points: "fst ` set (group_points pts m) = fst ` set m \<union> UnixNano ` set pts"
  by (induction pts arbitrary: m) (auto simp: dom_update Let_def)

lemma distinct_group_points: "distinct (map fst m) \<Longrightarrow> distinct (map fst (group_points pts m))"
  by (induction pts arbitrary: m) (auto simp: distinct_update Let_def)

lemma lookup_points_subset: "set (lookup_points m ts) \<subseteq> \<Union> (set ` snd ` set m)"
proof (cases "map_of m ts")
  case None
  then show ?thesis by (simp add: lookup_points_def)
next
  case (Some ps)
  then have "(ts, ps) \<in> set m" by (rule map_of_SomeD)
  then have "set ps \<subseteq> \<Union> (set ` snd ` set m)" by force
  with Some show ?thesis by (simp add: lookup_points_def)
qed

lemma members_update_subset:
  "\<Union> (set ` snd ` set (AList.update k v m)) \<subseteq> set v \<union> \<Union> (set ` snd ` set m)"
  by (induction m) auto

lemma members_group_points:
  "\<Union> (set ` snd ` set (group_points pts m)) \<subseteq> \<Union> (set ` snd ` set m) \<union> set pts"
proof (induction pts arbitrary: m)
  case Nil
  then show ?case by simp
next
  case (Cons pt pts)
  define U where "U = (\<lambda>m :: (int \<times> point list) list. \<Union> (set ` snd ` set m))"
  define m1 where "m1 = (if map_of m (UnixNano pt) = None then AList.update (UnixNano pt) [] m else m)"
  define m2 where "m2 = AList.update (UnixNano pt) (lookup_points m1 (UnixNano pt) @ [pt]) m1"
  have a: "U m1 \<subseteq> U m"
    using members_update_subset [of "UnixNano pt" "[]" m] by (simp add: m1_def U_def)
  have "U m2 \<subseteq> set (lookup_points m1 (UnixNano pt) @ [pt]) \<union> U m1"
    unfolding m2_def U_def by (rule members_update_subset)
  moreover have "set (lookup_points m1 (UnixNano pt)) \<subseteq> U m1"
    unfolding U_def by (rule lookup_points_subset)
  ultimately have b: "U m2 \<subseteq> U m1 \<union> {pt}" by auto
  have "group_points (pt # pts) m = group_points pts m2"
    by (simp add: m1_def m2_def Let_def)
  moreover have "U (group_points pts m2) \<subseteq> U m2 \<union> set pts"
    unfolding U_def by (rule Cons)
  ultimately have "U (group_points (pt # pts) m) \<subseteq> U m \<union> set (pt # pts)"
    using a b by auto
  then show ?case by (simp add: U_def)
qed

text \<open>
  Claim C9, as the code has it: for every batch in which no point's serialised
  tags and fields contain a line feed, and for every order in which the map of
  timestamps is iterated, the output has exactly one line per distinct
  timestamp: the number of line feeds equals the number of distinct timestamps,
  and splitting the output at the line feeds gives, per timestamp, the points
  of that timestamp followed by \<open>timestamp=<ns>\<close>.
\<close>

theorem encode_groups_line_count:
  assumes "mset gs = mset (group_points pts [])"
    and "\<forall>pt \<in> set pts. CHR 0x0A \<notin> set (encode_point ff pt)"
  shows "count_lines (encode_groups ff gs) = card (UnixNano ` set pts)
    \<and> bytes_Split (encode_groups ff gs) (CHR 0x0A)
        = map (\<lambda>g. concat (map (encode_point ff) (snd g)) @ ''timestamp='' @ show_int (fst g)) gs @ [[]]"
proof -
  have s: "set gs = set (group_points pts [])"
    using assms(1) by (rule mset_eq_setD)
  have "\<Union> (set ` snd ` set gs) \<subseteq> set pts"
    using members_group_points [of pts "[]"] by (simp add: s)
  with assms(2) have clean: "\<forall>g \<in> set gs. \<forall>pt \<in> set (snd g). CHR 0x0A \<notin> set (encode_point ff pt)"
    by blast
  have "length gs = length (map fst (group_points pts []))"
    using mset_eq_length [OF assms(1)] by simp
  also have "\<dots> = card (set (map fst (group_points pts [])))"
    by (rule distinct_card [symmetric]) (simp add: distinct_group_points)
  also have "\<dots> = card (UnixNano ` set pts)"
    by (simp add: keys_group_points)
  finally have "length gs = card (UnixNano ` set pts)" .
  with encode_groups_lines [OF clean] show ?thesis by simp
qed

text \<open>
  One point with a string field that holds a line feed: one timestamp, two
  lines.
\<close>

theorem encode_groups_embedded_newline:
  "count_lines (encode_groups print_float (group_points
      [\<lparr>Name = ''log'', Tags = [], Fields = [(''msg'', StringV (''a'' @ [CHR 0x0A] @ ''b''))], UnixNano = 1\<rparr>] []))
     = 2
   \<and> card (UnixNano ` set
      [\<lparr>Name = ''log'', Tags = [], Fields = [(''msg'', StringV (''a'' @ [CHR 0x0A] @ ''b''))], UnixNano = 1\<rparr>])
     = 1"
  by code_simp

theorem encode_groups_line_count_witness:
  "count_lines (encode_groups print_float [(2, [mem_point]), (1, [cpu_point, cpu_point\<lparr>Tags := [(''host'', ''h2'')]\<rparr>])])
     = card (UnixNano ` set [cpu_point, mem_point, cpu_point\<lparr>Tags := [(''host'', ''h2'')]\<rparr>])
   \<and> card (UnixNano ` set [cpu_point, mem_point, cpu_point\<lparr>Tags := [(''host'', ''h2'')]\<rparr>]) = 2"
proof -
  have g: "group_points [cpu_point, mem_point, cpu_point\<lparr>Tags := [(''host'', ''h2'')]\<rparr>] []
      = [(1, [cpu_point, cpu_point\<lparr>Tags := [(''host'', ''h2'')]\<rparr>]), (2, [mem_point])]"
    by code_simp
  have m: "mset [(2, [mem_point]), (1, [cpu_point, cpu_point\<lparr>Tags := [(''host'', ''h2'')]\<rparr>])]
      = mset (group_points [cpu_point, mem_point, cpu_point\<lparr>Tags := [(''host'', ''h2'')]\<rparr>] [])"
    unfolding g by (simp add: add_mset_commute)
  have c: "\<forall>pt \<in> set [cpu_point, mem_point, cpu_point\<lparr>Tags := [(''host'', ''h2'')]\<rparr>].
      CHR 0x0A \<notin> set (encode_point print_float pt)"
    by (simp add: cpu_point_def mem_point_def encode_point_def convertTag_def convertField_def
        show_int_no_newline)
  have k: "card (UnixNano ` set [cpu_point, mem_point, cpu_point\<lparr>Tags := [(''host'', ''h2'')]\<rparr>]) = 2"
    by code_simp
  from encode_groups_line_count [OF m c] k show ?thesis by simp
qed

end
